theory Spec2Isabelle
  imports Complex_Main "HOL-Library.Multiset" "HOL-Library.Product_Lexorder"
begin

section \<open>Vehicle stoppage identification: the pipeline of stoppage\_analysis.py\<close>

text \<open>
  The script is one linear run: load the sheet, prepare the geometry table, detect
  stoppages, draw the map. Each \<^verbatim>\<open>try\<close> block is a stage returning \<open>error + result\<close>;
  an \<^verbatim>\<open>except\<close> handler that calls \<^verbatim>\<open>exit()\<close> ends the run in \<open>Exit\<close>.

  The calls into gspread, pandas, movingpandas, folium and the Python runtime are not
  code of the script. They are the fields of the record \<open>libs\<close>, which every stage
  takes as its first argument; the script's own glue is written out around them.
  Floating-point columns are read as real numbers, with \<open>None\<close> for NaN and NaT;
  the division of line 114 is rounded to float64 as the code's is.
\<close>

subsection \<open>Exceptions and tables\<close>

datatype error =
    KeyError string
  | TypeError string
  | ValueError string
  | IndexError string
  | LibraryError string

datatype stage = Load | Prepare | Detect | Render

text \<open>A cell of the raw sheet is a string; a short row is filled up with \<open>None\<close>.\<close>

type_synonym cell = "string option"

record DataFrame =
  columns :: "string list"
  body :: "cell list list"

text \<open>A row of \<open>df\<close> after lines 49--65: the index and the three coerced columns.\<close>

record coerced_row =
  index_Timestamp :: "int option"
  num_eventGeneratedTime :: "real option"
  num_latitude :: "real option"
  num_longitude :: "real option"
  source_cells :: "cell list"

text \<open>A row of \<open>gdf\<close>: coordinates are numbers, \<open>geometry\<close> is \<open>Point(longitude, latitude)\<close>.\<close>

record geo_row =
  Timestamp :: "int option"
  latitude :: real
  longitude :: real
  geometry :: "real \<times> real"
  other_cells :: "cell list"

record GeoDataFrame =
  gdf_columns :: "string list"
  gdf_rows :: "geo_row list"

record trajectory =
  traj_df :: GeoDataFrame
  traj_id :: string

text \<open>A row of the detector's result, and the same row once line 114 has added its column.\<close>

record stop_row =
  stop_geometry :: "real \<times> real"
  stop_start_time :: int
  stop_end_time :: int
  stop_duration_s :: real

record stop_point =
  geometry_xy :: "real \<times> real"
  start_time :: int
  end_time :: int
  duration_s :: real
  duration_minutes :: real

record detected =
  det_columns :: "string list"
  det_rows :: "stop_row list"

record stop_points =
  sp_columns :: "string list"
  sp_rows :: "stop_point list"

subsection \<open>The map document\<close>

record PolyLine =
  locations :: "(real \<times> real) list"
  color :: string
  weight :: nat
  opacity :: real
  tooltip :: string

record Marker =
  marker_location :: "real \<times> real"
  popup :: string
  popup_max_width :: nat
  icon_color :: string
  icon_name :: string

record folium_Map =
  map_location :: "real \<times> real"
  zoom_start :: nat
  polylines :: "PolyLine list"
  markers :: "Marker list"

subsection \<open>The libraries\<close>

text \<open>
  \<open>get_all_values\<close> stands for lines 25--30 (credentials, authorisation, opening the
  sheet, fetching it); \<open>to_numeric\<close> and \<open>to_datetime\<close> for the pandas coercions with
  \<^verbatim>\<open>errors='coerce'\<close> (\<open>None\<close> is NaN, respectively NaT); \<open>mpd_Trajectory\<close> and
  \<open>get_stop_points\<close> for the movingpandas calls of lines 98--104; \<open>strftime\<close> and
  \<open>str_float\<close> for the formatting done by the Python runtime; \<open>save\<close> for
  \<^verbatim>\<open>m.save(output_map_file)\<close>, which returns the exception it raises, if any.
\<close>

record libs =
  get_all_values :: "error + string list list"
  to_numeric :: "cell \<Rightarrow> real option"
  to_datetime :: "real \<Rightarrow> int option"
  mpd_Trajectory :: "GeoDataFrame \<Rightarrow> string \<Rightarrow> error + trajectory"
  get_stop_points :: "trajectory \<Rightarrow> int \<Rightarrow> nat \<Rightarrow> error + detected"
  strftime :: "int \<Rightarrow> string \<Rightarrow> string"
  str_float :: "real \<Rightarrow> string"
  save :: "folium_Map \<Rightarrow> string \<Rightarrow> error option"

subsection \<open>Configuration\<close>

definition STOPPAGE_THRESHOLD_MINUTES :: int where
  "STOPPAGE_THRESHOLD_MINUTES = 5"

definition max_diameter_meters :: nat where
  "max_diameter_meters = 50"

text \<open>\<^verbatim>\<open>timedelta(minutes=n)\<close>, in seconds.\<close>

definition timedelta_minutes :: "int \<Rightarrow> int" where
  "timedelta_minutes n = 60 * n"

definition min_duration_td :: int where
  "min_duration_td = timedelta_minutes STOPPAGE_THRESHOLD_MINUTES"

definition output_map_file :: string where
  "output_map_file = ''vehicle_stoppages_map.html''"

subsection \<open>Step 1: loading\<close>

definition pad_row :: "nat \<Rightarrow> string list \<Rightarrow> cell list" where
  "pad_row w r = map Some r @ replicate (w - length r) None"

text \<open>
  \<^verbatim>\<open>pd.DataFrame(rows, columns=header)\<close> on lists of strings: the rows are filled up to
  the longest one, and the width must then be the number of column names.
\<close>

definition new_DataFrame :: "string list list \<Rightarrow> string list \<Rightarrow> error + DataFrame" where
  "new_DataFrame rows header =
     (if rows = [] then Inr \<lparr>columns = header, body = []\<rparr>
      else
        let w = foldr max (map length rows) 0
        in if w \<noteq> length header
           then Inl (ValueError ''columns passed do not match the width of the data'')
           else Inr \<lparr>columns = header, body = map (pad_row w) rows\<rparr>)"

definition load_stage :: "libs \<Rightarrow> error + DataFrame" where
  "load_stage env =
     (case get_all_values env of
        Inl e \<Rightarrow> Inl e
      | Inr data \<Rightarrow>
          (case data of
             [] \<Rightarrow> Inl (IndexError ''list index out of range'')
           | header # rows \<Rightarrow> new_DataFrame rows header))"

subsection \<open>Step 2: preparing the geometry table\<close>

fun positions :: "string list \<Rightarrow> string \<Rightarrow> nat \<Rightarrow> nat list" where
  "positions [] c n = []"
| "positions (x # xs) c n = (if x = c then [n] else []) @ positions xs c (Suc n)"

text \<open>
  \<^verbatim>\<open>df[c]\<close> handed to \<^verbatim>\<open>pd.to_numeric\<close>: a missing name raises KeyError, a name that
  occurs twice selects a frame, which \<^verbatim>\<open>to_numeric\<close> refuses.
\<close>

definition get_loc :: "string list \<Rightarrow> string \<Rightarrow> error + nat" where
  "get_loc cols c =
     (case positions cols c 0 of
        [] \<Rightarrow> Inl (KeyError c)
      | [i] \<Rightarrow> Inr i
      | _ \<Rightarrow> Inl (TypeError ''arg must be a list, tuple, 1-d array, or Series''))"

definition cell_at :: "cell list \<Rightarrow> nat \<Rightarrow> cell" where
  "cell_at r i = (if i < length r then r ! i else None)"

text \<open>Lines 49, 50, 63 and 65 on one row; NaN becomes NaT.\<close>

definition coerce_row :: "libs \<Rightarrow> nat \<Rightarrow> nat \<Rightarrow> nat \<Rightarrow> cell list \<Rightarrow> coerced_row" where
  "coerce_row env it ila ilo r =
     (let t = to_numeric env (cell_at r it)
      in \<lparr>index_Timestamp = (case t of None \<Rightarrow> None | Some v \<Rightarrow> to_datetime env v),
          num_eventGeneratedTime = t,
          num_latitude = to_numeric env (cell_at r ila),
          num_longitude = to_numeric env (cell_at r ilo),
          source_cells = r\<rparr>)"

text \<open>
  \<^verbatim>\<open>sort_index()\<close> on the Timestamp index: ascending, NaT last. pandas leaves the
  order of rows with equal index values open; here they keep the order of the sheet.
\<close>

fun na_last :: "int option \<Rightarrow> nat \<times> int" where
  "na_last None = (1, 0)"
| "na_last (Some t) = (0, t)"

definition sort_index :: "coerced_row list \<Rightarrow> coerced_row list" where
  "sort_index rows = sort_key (\<lambda>r. na_last (index_Timestamp r)) rows"

text \<open>
  Lines 72 and 79: \<^verbatim>\<open>dropna(subset=['latitude', 'longitude'])\<close>, then the point of
  each remaining row.
\<close>

definition point_row :: "coerced_row \<Rightarrow> geo_row option" where
  "point_row r =
     (case (num_latitude r, num_longitude r) of
        (Some la, Some lo) \<Rightarrow>
          Some \<lparr>Timestamp = index_Timestamp r, latitude = la, longitude = lo,
                geometry = (lo, la), other_cells = source_cells r\<rparr>
      | _ \<Rightarrow> None)"

definition dropna_points :: "coerced_row list \<Rightarrow> geo_row list" where
  "dropna_points rows = List.map_filter point_row rows"

text \<open>
  The column names of \<open>gdf\<close>: \<^verbatim>\<open>set_index\<close> takes \<open>Timestamp\<close> out of the columns,
  line 79 appends \<open>geometry\<close> unless the sheet already had it.
\<close>

definition prepared_columns :: "string list \<Rightarrow> string list" where
  "prepared_columns header =
     (let cols = filter (\<lambda>c. c \<noteq> ''Timestamp'') header
      in if ''geometry'' \<in> set cols then cols else cols @ [''geometry''])"

definition prepare_stage :: "libs \<Rightarrow> DataFrame \<Rightarrow> error + GeoDataFrame" where
  "prepare_stage env df =
     (case get_loc (columns df) ''eventGeneratedTime'' of
        Inl e \<Rightarrow> Inl e
      | Inr it \<Rightarrow>
          if 1 < length (positions (columns df) ''Timestamp'' 0)
          then Inl (ValueError ''Index data must be 1-dimensional'')
          else
            (case get_loc (columns df) ''latitude'' of
               Inl e \<Rightarrow> Inl e
             | Inr ila \<Rightarrow>
                 (case get_loc (columns df) ''longitude'' of
                    Inl e \<Rightarrow> Inl e
                  | Inr ilo \<Rightarrow>
                      if 1 < length (positions (columns df) ''geometry'' 0)
                      then Inl (ValueError ''multiple columns using the geometry column name'')
                      else Inr \<lparr>gdf_columns = prepared_columns (columns df),
                                gdf_rows = dropna_points
                                  (sort_index (map (coerce_row env it ila ilo) (body df)))\<rparr>)))"

text \<open>
  \<^verbatim>\<open>gdf.empty\<close>: a frame whose rows carry values has columns, so it is empty exactly
  when it has no rows.
\<close>

definition gdf_empty :: "GeoDataFrame \<Rightarrow> bool" where
  "gdf_empty g = (gdf_rows g = [])"

subsection \<open>Floating-point division\<close>

text \<open>
  Line 114 divides a float64 column by 60. The quotient of two floats is the exact
  quotient rounded to the nearest float64, ties to even: a float64 in the binade
  \<open>2\<^sup>e \<le> |x| < 2\<^bsup>e+1\<^esup>\<close> is a multiple of \<open>2\<^bsup>e-52\<^esup>\<close>, and below \<open>2\<^bsup>-1022\<^esup>\<close> the
  spacing stays \<open>2\<^bsup>-1074\<^esup>\<close>. Dividing a finite float by 60 cannot overflow.
\<close>

definition round_half_even :: "real \<Rightarrow> int" where
  "round_half_even x =
     (let f = \<lfloor>x\<rfloor>; d = x - of_int f
      in if d < 1 / 2 then f
         else if 1 / 2 < d then f + 1
         else if even f then f else f + 1)"

text \<open>
  The binade of \<open>x\<close>: for \<open>1 \<le> x\<close> the least \<open>n\<close> with \<open>x < 2\<^bsup>n+1\<^esup>\<close>, at most 1023;
  for \<open>x < 1\<close> the least \<open>n\<close> with \<open>1 \<le> x \<sqdot> 2\<^sup>n\<close>, at most 1022.
\<close>

fun exponent_up :: "nat \<Rightarrow> nat \<Rightarrow> real \<Rightarrow> nat" where
  "exponent_up 0 n x = n"
| "exponent_up (Suc k) n x = (if x < 2 ^ Suc n then n else exponent_up k (Suc n) x)"

fun exponent_down :: "nat \<Rightarrow> nat \<Rightarrow> real \<Rightarrow> nat" where
  "exponent_down 0 n x = n"
| "exponent_down (Suc k) n x = (if 1 \<le> x * 2 ^ n then n else exponent_down k (Suc n) x)"

definition float64_exponent :: "real \<Rightarrow> int" where
  "float64_exponent x =
     (if 1 \<le> \<bar>x\<bar> then int (exponent_up 1023 0 \<bar>x\<bar>)
      else - int (exponent_down 1021 1 \<bar>x\<bar>))"

definition float64_ulp :: "int \<Rightarrow> real" where
  "float64_ulp e = (if 52 \<le> e then 2 ^ nat (e - 52) else 1 / 2 ^ nat (52 - e))"

definition float64 :: "real \<Rightarrow> real" where
  "float64 x =
     (if x = 0 then 0
      else
        let u = float64_ulp (float64_exponent x)
        in of_int (round_half_even (x / u)) * u)"

definition truediv :: "real \<Rightarrow> real \<Rightarrow> real" where
  "truediv x y = float64 (x / y)"

subsection \<open>Step 3: detecting stoppages\<close>

definition empty_stop_points :: stop_points where
  "empty_stop_points =
     \<lparr>sp_columns = [''start_time'', ''end_time'', ''duration_minutes'', ''geometry''],
      sp_rows = []\<rparr>"

definition trajectory_id_col :: "GeoDataFrame \<Rightarrow> string" where
  "trajectory_id_col gdf =
     (if ''EquipmentId'' \<in> set (gdf_columns gdf) then ''EquipmentId'' else ''Vehicle1_ID'')"

definition with_duration_minutes :: "stop_row \<Rightarrow> stop_point" where
  "with_duration_minutes r =
     \<lparr>geometry_xy = stop_geometry r, start_time = stop_start_time r,
      end_time = stop_end_time r, duration_s = stop_duration_s r,
      duration_minutes = truediv (stop_duration_s r) 60\<rparr>"

text \<open>
  Lines 113--114. A result without rows is left as it is; otherwise every row gets
  \<open>duration_minutes\<close> and the column is added.
\<close>

definition add_duration_minutes :: "detected \<Rightarrow> stop_points" where
  "add_duration_minutes d =
     \<lparr>sp_columns =
        (if det_rows d \<noteq> [] \<and> ''duration_minutes'' \<notin> set (det_columns d)
         then det_columns d @ [''duration_minutes''] else det_columns d),
      sp_rows = map with_duration_minutes (det_rows d)\<rparr>"

definition detect_stage :: "libs \<Rightarrow> GeoDataFrame \<Rightarrow> error + stop_points" where
  "detect_stage env gdf =
     (if gdf_empty gdf then Inr empty_stop_points
      else
        (case mpd_Trajectory env gdf (trajectory_id_col gdf) of
           Inl e \<Rightarrow> Inl e
         | Inr tr \<Rightarrow>
             (case get_stop_points env tr min_duration_td max_diameter_meters of
                Inl e \<Rightarrow> Inl e
              | Inr d \<Rightarrow> Inr (add_duration_minutes d))))"

definition sp_empty :: "stop_points \<Rightarrow> bool" where
  "sp_empty sp = (sp_rows sp = [])"

subsection \<open>Step 4: the map\<close>

definition mean :: "real list \<Rightarrow> real" where
  "mean xs = sum_list xs / real (length xs)"

definition map_center :: "GeoDataFrame \<Rightarrow> real \<times> real" where
  "map_center gdf =
     (if \<not> gdf_empty gdf
      then (mean (map latitude (gdf_rows gdf)), mean (map longitude (gdf_rows gdf)))
      else (20.0827, 78.9629))"

definition vehicle_path :: "GeoDataFrame \<Rightarrow> PolyLine" where
  "vehicle_path gdf =
     \<lparr>locations = zip (map latitude (gdf_rows gdf)) (map longitude (gdf_rows gdf)),
      color = ''blue'', weight = 3, opacity = 7 / 10, tooltip = ''Vehicle Path''\<rparr>"

text \<open>\<^verbatim>\<open>round(x, n)\<close> on a real number: to the nearest multiple of \<open>10\<^sup>-\<^sup>n\<close>, ties to even.\<close>

definition py_round :: "real \<Rightarrow> nat \<Rightarrow> real" where
  "py_round x n = of_int (round_half_even (x * 10 ^ n)) / 10 ^ n"

definition time_format :: string where
  "time_format = ''%Y-%m-%d %H:%M:%S''"

definition indent :: string where
  "indent = CHR 0x0A # replicate 12 CHR '' ''"

definition popup_html :: "string \<Rightarrow> string \<Rightarrow> string \<Rightarrow> string" where
  "popup_html reach_time_str end_time_str minutes_str =
     indent @ ''<b>Stoppage Details</b><br>'' @
     indent @ ''-----------------------------<br>'' @
     indent @ ''<b>Reach Time:</b> '' @ reach_time_str @ ''<br>'' @
     indent @ ''<b>End Time:</b> '' @ end_time_str @ ''<br>'' @
     indent @ ''<b>Duration:</b> '' @ minutes_str @ '' minutes'' @
     indent"

definition stoppage_marker :: "libs \<Rightarrow> stop_point \<Rightarrow> Marker" where
  "stoppage_marker env row =
     (let reach_time_str = strftime env (start_time row) time_format;
          end_time_str = strftime env (end_time row) time_format;
          stoppage_duration_minutes = py_round (duration_minutes row) 2
      in \<lparr>marker_location = (snd (geometry_xy row), fst (geometry_xy row)),
          popup = popup_html reach_time_str end_time_str (str_float env stoppage_duration_minutes),
          popup_max_width = 300, icon_color = ''red'', icon_name = ''info-sign''\<rparr>)"

definition draw_map :: "libs \<Rightarrow> GeoDataFrame \<Rightarrow> stop_points \<Rightarrow> folium_Map" where
  "draw_map env gdf sp =
     \<lparr>map_location = map_center gdf, zoom_start = 12,
      polylines = (if \<not> gdf_empty gdf then [vehicle_path gdf] else []),
      markers = (if \<not> sp_empty sp then map (stoppage_marker env) (sp_rows sp) else [])\<rparr>"

text \<open>The result of step 4: the file written, or the exception its handler printed.\<close>

definition map_stage :: "libs \<Rightarrow> GeoDataFrame \<Rightarrow> stop_points \<Rightarrow> error + string \<times> folium_Map" where
  "map_stage env gdf sp =
     (let m = draw_map env gdf sp
      in case save env m output_map_file of
           Some e \<Rightarrow> Inl e
         | None \<Rightarrow> Inr (output_map_file, m))"

subsection \<open>The whole run\<close>

datatype outcome =
    Exit stage error
  | Finished GeoDataFrame stop_points "error + string \<times> folium_Map"

definition run :: "libs \<Rightarrow> outcome" where
  "run env =
     (case load_stage env of
        Inl e \<Rightarrow> Exit Load e
      | Inr df \<Rightarrow>
          (case prepare_stage env df of
             Inl e \<Rightarrow> Exit Prepare e
           | Inr gdf \<Rightarrow>
               (case detect_stage env gdf of
                  Inl e \<Rightarrow> Exit Detect e
                | Inr sp \<Rightarrow> Finished gdf sp (map_stage env gdf sp))))"

subsection \<open>The order of the index\<close>

text \<open>
  How \<open>sort_index\<close> compares two index values: timestamps ascending, NaT after every
  timestamp.
\<close>

fun time_le :: "int option \<Rightarrow> int option \<Rightarrow> bool" where
  "time_le (Some s) (Some t) = (s \<le> t)"
| "time_le None (Some t) = False"
| "time_le a None = True"

subsection \<open>Sample sheets and sample library behaviour\<close>

text \<open>
  The theorems below hold for every behaviour of the libraries. To instantiate them, a
  small concrete behaviour: \<open>to_numeric\<close> reads a few decimal strings and nothing else,
  a timestamp in milliseconds becomes nanoseconds, a trajectory needs two rows (as
  movingpandas requires), and the detector's answer and the outcome of writing the file
  are given.
\<close>

definition example_to_numeric :: "cell \<Rightarrow> real option" where
  "example_to_numeric c =
     (case c of
        None \<Rightarrow> None
      | Some s \<Rightarrow>
          map_of [(''0'', 0), (''10'', 10), (''20'', 20), (''30'', 30),
                  (''1000'', 1000), (''2000'', 2000)] s)"

definition example_libs :: "string list list \<Rightarrow> error + detected \<Rightarrow> error option \<Rightarrow> libs" where
  "example_libs sheet found written =
     \<lparr>get_all_values = Inr sheet,
      to_numeric = example_to_numeric,
      to_datetime = (\<lambda>v. Some (\<lfloor>v\<rfloor> * 1000000)),
      mpd_Trajectory = (\<lambda>gdf i.
        if length (gdf_rows gdf) < 2
        then Inl (ValueError ''The input DataFrame must have at least two rows.'')
        else Inr \<lparr>traj_df = gdf, traj_id = i\<rparr>),
      get_stop_points = (\<lambda>tr d m. found),
      strftime = (\<lambda>t f.
        if t = 0 then ''1970-01-01 00:00:00''
        else if t = 600000000000 then ''1970-01-01 00:10:00''
        else ''1970-01-01 00:20:08''),
      str_float = (\<lambda>x. if x = 10 then ''10.0'' else if x = 1013 / 100 then ''10.13'' else ''nan''),
      save = (\<lambda>m f. written)\<rparr>"

definition sheet_header :: "string list" where
  "sheet_header = [''eventGeneratedTime'', ''latitude'', ''longitude'']"

text \<open>Four pings: one with a bad timestamp, one with a bad latitude.\<close>

definition sheet_mixed :: "string list list" where
  "sheet_mixed =
     [sheet_header,
      [''2000'', ''10'', ''20''],
      [''abc'', ''30'', ''10''],
      [''1000'', ''x'', ''20''],
      [''1000'', ''20'', ''30'']]"

definition frame_mixed :: DataFrame where
  "frame_mixed =
     \<lparr>columns = sheet_header,
      body = [[Some ''2000'', Some ''10'', Some ''20''],
              [Some ''abc'', Some ''30'', Some ''10''],
              [Some ''1000'', Some ''x'', Some ''20''],
              [Some ''1000'', Some ''20'', Some ''30'']]\<rparr>"

definition gdf_mixed :: GeoDataFrame where
  "gdf_mixed =
     \<lparr>gdf_columns = [''eventGeneratedTime'', ''latitude'', ''longitude'', ''geometry''],
      gdf_rows =
        [\<lparr>Timestamp = Some 1000000000, latitude = 20, longitude = 30, geometry = (30, 20),
          other_cells = [Some ''1000'', Some ''20'', Some ''30'']\<rparr>,
         \<lparr>Timestamp = Some 2000000000, latitude = 10, longitude = 20, geometry = (20, 10),
          other_cells = [Some ''2000'', Some ''10'', Some ''20'']\<rparr>,
         \<lparr>Timestamp = None, latitude = 30, longitude = 10, geometry = (10, 30),
          other_cells = [Some ''abc'', Some ''30'', Some ''10'']\<rparr>]\<rparr>"

text \<open>Every row has a coordinate that is not a number.\<close>

definition sheet_invalid :: "string list list" where
  "sheet_invalid =
     [sheet_header,
      [''1000'', ''x'', ''20''],
      [''2000'', ''10'', ''north'']]"

definition frame_invalid :: DataFrame where
  "frame_invalid =
     \<lparr>columns = sheet_header,
      body = [[Some ''1000'', Some ''x'', Some ''20''],
              [Some ''2000'', Some ''10'', Some ''north'']]\<rparr>"

definition gdf_invalid :: GeoDataFrame where
  "gdf_invalid =
     \<lparr>gdf_columns = [''eventGeneratedTime'', ''latitude'', ''longitude'', ''geometry''],
      gdf_rows = []\<rparr>"

text \<open>A single valid ping.\<close>

definition sheet_single :: "string list list" where
  "sheet_single = [sheet_header, [''1000'', ''10'', ''20'']]"

definition frame_single :: DataFrame where
  "frame_single = \<lparr>columns = sheet_header, body = [[Some ''1000'', Some ''10'', Some ''20'']]\<rparr>"

definition gdf_single :: GeoDataFrame where
  "gdf_single =
     \<lparr>gdf_columns = [''eventGeneratedTime'', ''latitude'', ''longitude'', ''geometry''],
      gdf_rows =
        [\<lparr>Timestamp = Some 1000000000, latitude = 10, longitude = 20, geometry = (20, 10),
          other_cells = [Some ''1000'', Some ''10'', Some ''20'']\<rparr>]\<rparr>"

text \<open>One stop of ten minutes at \<open>(x, y) = (20, 10)\<close>, and the detector's answer without stops.\<close>

definition one_stop :: detected where
  "one_stop =
     \<lparr>det_columns = [''geometry'', ''start_time'', ''end_time'', ''traj_id'', ''duration_s''],
      det_rows = [\<lparr>stop_geometry = (20, 10), stop_start_time = 0,
                   stop_end_time = 600000000000, stop_duration_s = 600\<rparr>]\<rparr>"


definition no_stops :: detected where
  "no_stops = \<lparr>det_columns = [], det_rows = []\<rparr>"

section \<open>Properties\<close>

subsection \<open>Evaluating the stages on the sample sheets\<close>

lemmas stage_defs =
  load_stage_def new_DataFrame_def pad_row_def prepare_stage_def get_loc_def
  prepared_columns_def coerce_row_def cell_at_def sort_index_def dropna_points_def
  point_row_def List.map_filter_simps example_libs_def example_to_numeric_def
  sheet_header_def

lemma load_mixed [simp]: "load_stage (example_libs sheet_mixed found written) = Inr frame_mixed"
  by (simp add: stage_defs sheet_mixed_def frame_mixed_def)

lemma prepare_mixed [simp]:
  "prepare_stage (example_libs sheet found written) frame_mixed = Inr gdf_mixed"
  by (simp add: stage_defs frame_mixed_def gdf_mixed_def)

lemma load_invalid [simp]:
  "load_stage (example_libs sheet_invalid found written) = Inr frame_invalid"
  by (simp add: stage_defs sheet_invalid_def frame_invalid_def)

lemma prepare_invalid [simp]:
  "prepare_stage (example_libs sheet found written) frame_invalid = Inr gdf_invalid"
  by (simp add: stage_defs frame_invalid_def gdf_invalid_def)

lemma load_single [simp]:
  "load_stage (example_libs sheet_single found written) = Inr frame_single"
  by (simp add: stage_defs sheet_single_def frame_single_def)

lemma prepare_single [simp]:
  "prepare_stage (example_libs sheet found written) frame_single = Inr gdf_single"
  by (simp add: stage_defs frame_single_def gdf_single_def)

lemma get_loc_sample [simp]:
  "get_loc sheet_header ''latitude'' = Inr 1" "get_loc sheet_header ''longitude'' = Inr 2"
  by (simp_all add: get_loc_def sheet_header_def)

subsection \<open>Facts about the stages\<close>

lemma prepare_stage_InrE:
  assumes "prepare_stage env df = Inr gdf"
  obtains it ila ilo where
    "get_loc (columns df) ''eventGeneratedTime'' = Inr it"
    "get_loc (columns df) ''latitude'' = Inr ila"
    "get_loc (columns df) ''longitude'' = Inr ilo"
    "gdf = \<lparr>gdf_columns = prepared_columns (columns df),
            gdf_rows = dropna_points (sort_index (map (coerce_row env it ila ilo) (body df)))\<rparr>"
  using assms unfolding prepare_stage_def
  by (auto split: sum.splits if_splits)

lemma na_last_le: "na_last a \<le> na_last b \<longleftrightarrow> time_le a b"
  by (cases a; cases b) (auto simp: less_eq_prod_def)

lemma dropna_points_filter:
  "dropna_points rows = map (the \<circ> point_row) (filter (\<lambda>r. point_row r \<noteq> None) rows)"
  by (simp add: dropna_points_def List.map_filter_def)

lemma point_row_fields:
  assumes "point_row r = Some g"
  shows "Timestamp g = index_Timestamp r" "num_latitude r = Some (latitude g)"
    "num_longitude r = Some (longitude g)" "other_cells g = source_cells r"
    "geometry g = (longitude g, latitude g)"
  using assms by (auto simp: point_row_def split: option.splits)

lemma sorted_sort_index:
  "sorted_wrt (\<lambda>a b. time_le (index_Timestamp a) (index_Timestamp b)) (sort_index rows)"
proof -
  have "sorted (map (\<lambda>r. na_last (index_Timestamp r)) (sort_index rows))"
    unfolding sort_index_def by (rule sorted_sort_key)
  then show ?thesis
    by (simp add: sorted_map na_last_le)
qed

lemma sorted_dropna_points:
  assumes "sorted_wrt (\<lambda>a b. time_le (index_Timestamp a) (index_Timestamp b)) rows"
  shows "sorted_wrt (\<lambda>a b. time_le (Timestamp a) (Timestamp b)) (dropna_points rows)"
  using assms
proof (induction rows)
  case Nil
  then show ?case by (simp add: dropna_points_def List.map_filter_simps)
next
  case (Cons r rows)
  have tail: "sorted_wrt (\<lambda>a b. time_le (Timestamp a) (Timestamp b)) (dropna_points rows)"
    using Cons by simp
  show ?case
  proof (cases "point_row r")
    case None
    then show ?thesis using tail by (simp add: dropna_points_def List.map_filter_simps)
  next
    case (Some g)
    have "time_le (Timestamp g) (Timestamp h)" if "h \<in> set (dropna_points rows)" for h
    proof -
      from that obtain q where q: "q \<in> set rows" "point_row q = Some h"
        by (auto simp: dropna_points_filter)
      with Cons.prems have "time_le (index_Timestamp r) (index_Timestamp q)" by simp
      then show ?thesis using point_row_fields(1)[OF Some] point_row_fields(1)[OF q(2)] by simp
    qed
    then show ?thesis using tail Some
      by (simp add: dropna_points_def List.map_filter_simps)
  qed
qed

lemma mset_dropna_sort_index:
  "mset (dropna_points (sort_index rows)) = mset (dropna_points rows)"
proof -
  have "mset (filter (\<lambda>r. point_row r \<noteq> None) (sort_index rows)) =
        mset (filter (\<lambda>r. point_row r \<noteq> None) rows)"
    unfolding sort_index_def mset_filter mset_sort ..
  then have "image_mset (the \<circ> point_row) (mset (filter (\<lambda>r. point_row r \<noteq> None) (sort_index rows))) =
        image_mset (the \<circ> point_row) (mset (filter (\<lambda>r. point_row r \<noteq> None) rows))"
    by (rule arg_cong)
  then show ?thesis
    unfolding dropna_points_filter mset_map .
qed

lemma filter_valid_rows:
  "filter (\<lambda>r. point_row (coerce_row env it ila ilo r) \<noteq> None) rows =
   filter (\<lambda>r. to_numeric env (cell_at r ila) \<noteq> None \<and> to_numeric env (cell_at r ilo) \<noteq> None) rows"
  by (rule filter_cong) (auto simp: point_row_def coerce_row_def Let_def split: option.splits)

lemma mset_prepared_rows:
  assumes "prepare_stage env df = Inr gdf"
    and "get_loc (columns df) ''latitude'' = Inr ila"
    and "get_loc (columns df) ''longitude'' = Inr ilo"
  shows "\<exists>it. mset (gdf_rows gdf) =
    image_mset (\<lambda>r. the (point_row (coerce_row env it ila ilo r)))
      (mset (filter (\<lambda>r. to_numeric env (cell_at r ila) \<noteq> None \<and> to_numeric env (cell_at r ilo) \<noteq> None) (body df)))"
proof -
  from assms(1) obtain it ila' ilo' where
    l: "get_loc (columns df) ''latitude'' = Inr ila'" "get_loc (columns df) ''longitude'' = Inr ilo'" and
    g: "gdf = \<lparr>gdf_columns = prepared_columns (columns df),
            gdf_rows = dropna_points (sort_index (map (coerce_row env it ila' ilo') (body df)))\<rparr>"
    by (rule prepare_stage_InrE)
  from l assms(2,3) have [simp]: "ila' = ila" "ilo' = ilo" by simp_all
  have "mset (gdf_rows gdf) = mset (dropna_points (map (coerce_row env it ila ilo) (body df)))"
    using g by (simp add: mset_dropna_sort_index)
  also have "\<dots> = image_mset (\<lambda>r. the (point_row (coerce_row env it ila ilo r)))
      (mset (filter (\<lambda>r. to_numeric env (cell_at r ila) \<noteq> None \<and> to_numeric env (cell_at r ilo) \<noteq> None) (body df)))"
    unfolding dropna_points_filter filter_map comp_def mset_map filter_valid_rows
    by (simp add: image_mset.compositionality comp_def)
  finally show ?thesis by blast
qed

lemma point_of_valid:
  assumes "to_numeric env (cell_at r ila) \<noteq> None" "to_numeric env (cell_at r ilo) \<noteq> None"
  shows "latitude (the (point_row (coerce_row env it ila ilo r))) = the (to_numeric env (cell_at r ila))"
    "longitude (the (point_row (coerce_row env it ila ilo r))) = the (to_numeric env (cell_at r ilo))"
    "other_cells (the (point_row (coerce_row env it ila ilo r))) = r"
  using assms by (auto simp: point_row_def coerce_row_def Let_def split: option.splits)

lemma round_half_even_near: "\<bar>of_int (round_half_even y) - y\<bar> \<le> 1 / 2"
proof -
  have "of_int \<lfloor>y\<rfloor> \<le> y" "y < of_int \<lfloor>y\<rfloor> + 1" by linarith+
  then show ?thesis
    by (auto simp: round_half_even_def Let_def)
qed

lemma py_round_two_places:
  "\<exists>k::int. py_round x 2 = of_int k / 100 \<and> \<bar>py_round x 2 - x\<bar> \<le> 1 / 200"
proof -
  let ?k = "round_half_even (x * 10 ^ 2)"
  have "\<bar>of_int ?k - x * 100\<bar> \<le> 1 / 2"
    using round_half_even_near[of "x * 10 ^ 2"] by simp
  then have "\<bar>of_int ?k / 100 - x\<bar> \<le> 1 / 200" by (simp add: field_simps abs_le_iff)
  then show ?thesis by (auto simp: py_round_def)
qed


subsection \<open>Facts about rounding\<close>
















subsection \<open>The empty table\<close>

text \<open>
  C2. If the prepared geometry table is empty (for example because every row of the sheet
  had an invalid coordinate), the stoppage table is the empty table built on line 94,
  and the run finishes by saving the map centred on the fallback coordinate
  \<open>(20.0827, 78.9629)\<close>, with no path and no markers: the outcome is what
  \<^verbatim>\<open>m.save\<close> makes of that map, the file \<open>vehicle_stoppages_map.html\<close> holding it,
  or the exception \<^verbatim>\<open>m.save\<close> raised.
\<close>

theorem empty_table_fallback_map:
  assumes "load_stage env = Inr df"
    and "prepare_stage env df = Inr gdf"
    and "gdf_empty gdf"
  shows "run env =
    Finished gdf empty_stop_points
      (case save env
              \<lparr>map_location = (20.0827, 78.9629), zoom_start = 12, polylines = [], markers = []\<rparr>
              output_map_file of
         Some e \<Rightarrow> Inl e
       | None \<Rightarrow>
           Inr (output_map_file,
                \<lparr>map_location = (20.0827, 78.9629), zoom_start = 12, polylines = [],
                 markers = []\<rparr>))"
proof -
  have d: "detect_stage env gdf = Inr empty_stop_points"
    using assms(3) by (simp add: detect_stage_def)
  have m: "draw_map env gdf empty_stop_points =
      \<lparr>map_location = (20.0827, 78.9629), zoom_start = 12, polylines = [], markers = []\<rparr>"
    using assms(3) by (simp add: draw_map_def map_center_def sp_empty_def empty_stop_points_def)
  show ?thesis
    using assms(1,2) d by (simp add: run_def map_stage_def m Let_def split: option.split)
qed

theorem empty_table_fallback_map_witness:
  "gdf_empty gdf_invalid \<and>
   run (example_libs sheet_invalid (Inr one_stop) None) =
    Finished gdf_invalid empty_stop_points
      (Inr (''vehicle_stoppages_map.html'',
            \<lparr>map_location = (20.0827, 78.9629), zoom_start = 12, polylines = [], markers = []\<rparr>)) \<and>
   run (example_libs sheet_invalid (Inr one_stop) (Some (LibraryError ''disk full''))) =
    Finished gdf_invalid empty_stop_points (Inl (LibraryError ''disk full''))"
proof -
  have e: "gdf_empty gdf_invalid" by (simp add: gdf_empty_def gdf_invalid_def)
  have s: "save (example_libs sheet found w) = (\<lambda>m f. w)" for sheet found w
    by (simp add: example_libs_def)
  show ?thesis
    using empty_table_fallback_map[OF load_invalid prepare_invalid e, of "Inr one_stop" None]
      empty_table_fallback_map[OF load_invalid prepare_invalid e, of "Inr one_stop"
        "Some (LibraryError ''disk full'')"] e
    by (simp add: output_map_file_def s)
qed

subsection \<open>Rows whose timestamp does not parse\<close>

text \<open>
  C3. The claim is that a row whose timestamp fails to parse is discarded like a row with
  a bad coordinate. Line 72 drops on \<open>latitude\<close> and \<open>longitude\<close> only: on the sample
  sheet the row with timestamp \<open>abc\<close> and valid coordinates parses to NaN, gets the
  index NaT, and is the third row of the prepared table.
\<close>

theorem unparsed_timestamp_row_kept:
  "to_numeric (example_libs sheet_mixed (Inr no_stops) None) (Some ''abc'') = None \<and>
   load_stage (example_libs sheet_mixed (Inr no_stops) None) = Inr frame_mixed \<and>
   prepare_stage (example_libs sheet_mixed (Inr no_stops) None) frame_mixed = Inr gdf_mixed \<and>
   gdf_rows gdf_mixed ! 2 =
     \<lparr>Timestamp = None, latitude = 30, longitude = 10, geometry = (10, 30),
      other_cells = [Some ''abc'', Some ''30'', Some ''10'']\<rparr>"
proof -
  have "to_numeric (example_libs sheet_mixed (Inr no_stops) None) (Some ''abc'') = None"
    by (simp add: example_libs_def example_to_numeric_def)
  moreover have "gdf_rows gdf_mixed ! 2 =
     \<lparr>Timestamp = None, latitude = 30, longitude = 10, geometry = (10, 30),
      other_cells = [Some ''abc'', Some ''30'', Some ''10'']\<rparr>"
    by (simp add: gdf_mixed_def)
  ultimately show ?thesis by simp
qed

subsection \<open>When the run exits early\<close>

text \<open>
  C4, as the script has it. The run ends in \<open>exit()\<close> exactly when the load stage, the
  preparation stage or the detection stage raises; it never exits from the map stage.
  When the first three stages succeed the run finishes, whatever the number of stoppages
  and whether the map stage raised (its exception is the \<open>Inl\<close> of the result) or not.
\<close>

theorem run_exit_cases:
  "(run env = Exit st e \<longleftrightarrow>
      (st = Load \<and> load_stage env = Inl e) \<or>
      (\<exists>df. load_stage env = Inr df \<and>
         ((st = Prepare \<and> prepare_stage env df = Inl e) \<or>
          (\<exists>gdf. prepare_stage env df = Inr gdf \<and> st = Detect \<and> detect_stage env gdf = Inl e)))) \<and>
   (\<forall>df gdf sp. load_stage env = Inr df \<longrightarrow> prepare_stage env df = Inr gdf \<longrightarrow>
      detect_stage env gdf = Inr sp \<longrightarrow> run env = Finished gdf sp (map_stage env gdf sp))"
  unfolding run_def by (auto split: sum.splits)

theorem run_exit_cases_witness:
  "sp_rows (add_duration_minutes no_stops) = [] \<and>
   run (example_libs sheet_mixed (Inr no_stops) (Some (LibraryError ''disk full''))) =
     Finished gdf_mixed (add_duration_minutes no_stops) (Inl (LibraryError ''disk full''))"
proof -
  let ?env = "example_libs sheet_mixed (Inr no_stops) (Some (LibraryError ''disk full''))"
  have d: "detect_stage ?env gdf_mixed = Inr (add_duration_minutes no_stops)"
    by (simp add: detect_stage_def gdf_empty_def gdf_mixed_def example_libs_def)
  have m: "map_stage ?env gdf_mixed (add_duration_minutes no_stops) = Inl (LibraryError ''disk full'')"
    by (simp add: map_stage_def example_libs_def)
  have "run ?env = Finished gdf_mixed (add_duration_minutes no_stops)
          (map_stage ?env gdf_mixed (add_duration_minutes no_stops))"
    using run_exit_cases[of ?env Load "LibraryError []"] d by simp
  then show ?thesis using m by (simp add: add_duration_minutes_def no_stops_def)
qed

text \<open>
  C4 as stated (early exit exactly on a load or preparation failure) fails: a sheet with
  a single valid ping loads and prepares, the trajectory cannot be built from one row,
  and the handler of lines 120--122 exits.
\<close>

theorem detect_failure_aborts:
  "load_stage (example_libs sheet_single (Inr no_stops) None) = Inr frame_single \<and>
   prepare_stage (example_libs sheet_single (Inr no_stops) None) frame_single = Inr gdf_single \<and>
   run (example_libs sheet_single (Inr no_stops) None) =
     Exit Detect (ValueError ''The input DataFrame must have at least two rows.'')"
proof -
  let ?env = "example_libs sheet_single (Inr no_stops) None"
  have "detect_stage ?env gdf_single =
      Inl (ValueError ''The input DataFrame must have at least two rows.'')"
    by (simp add: detect_stage_def gdf_empty_def gdf_single_def example_libs_def)
  then show ?thesis by (simp add: run_def)
qed

subsection \<open>Rows with invalid coordinates\<close>

text \<open>
  C5. The rows of the prepared table are, as a multiset of sheet rows, exactly the rows
  whose latitude and longitude both parse: a row with a latitude or longitude that does
  not parse is excluded, every other row is retained, as often as it occurs.
\<close>

theorem invalid_coordinates_dropped:
  assumes "prepare_stage env df = Inr gdf"
    and "get_loc (columns df) ''latitude'' = Inr ila"
    and "get_loc (columns df) ''longitude'' = Inr ilo"
  shows "mset (map other_cells (gdf_rows gdf)) =
         mset (filter (\<lambda>r. to_numeric env (cell_at r ila) \<noteq> None \<and>
                            to_numeric env (cell_at r ilo) \<noteq> None) (body df))"
proof -
  let ?valid = "filter (\<lambda>r. to_numeric env (cell_at r ila) \<noteq> None \<and>
                            to_numeric env (cell_at r ilo) \<noteq> None) (body df)"
  from mset_prepared_rows[OF assms] obtain it where
    m: "mset (gdf_rows gdf) = image_mset (\<lambda>r. the (point_row (coerce_row env it ila ilo r))) (mset ?valid)"
    by blast
  have "mset (map other_cells (gdf_rows gdf)) = image_mset other_cells (mset (gdf_rows gdf))"
    by simp
  also have "\<dots> = image_mset (\<lambda>r. other_cells (the (point_row (coerce_row env it ila ilo r)))) (mset ?valid)"
    by (simp add: m image_mset.compositionality comp_def)
  also have "\<dots> = image_mset (\<lambda>r. r) (mset ?valid)"
    by (rule image_mset_cong) (simp add: point_of_valid)
  finally show ?thesis by simp
qed

theorem invalid_coordinates_dropped_witness:
  "prepare_stage (example_libs sheet_mixed (Inr no_stops) None) frame_mixed = Inr gdf_mixed \<and>
   mset (map other_cells (gdf_rows gdf_mixed)) =
     mset [[Some ''2000'', Some ''10'', Some ''20''],
           [Some ''abc'', Some ''30'', Some ''10''],
           [Some ''1000'', Some ''20'', Some ''30'']]"
proof -
  let ?env = "example_libs sheet_mixed (Inr no_stops) None"
  have c: "columns frame_mixed = sheet_header" by (simp add: frame_mixed_def)
  have "mset (map other_cells (gdf_rows gdf_mixed)) =
         mset (filter (\<lambda>r. to_numeric ?env (cell_at r 1) \<noteq> None \<and>
                            to_numeric ?env (cell_at r 2) \<noteq> None) (body frame_mixed))"
    by (rule invalid_coordinates_dropped[of ?env frame_mixed gdf_mixed 1 2]) (simp_all add: c)
  also have "\<dots> = mset [[Some ''2000'', Some ''10'', Some ''20''],
           [Some ''abc'', Some ''30'', Some ''10''],
           [Some ''1000'', Some ''20'', Some ''30'']]"
    by (simp add: frame_mixed_def example_libs_def example_to_numeric_def cell_at_def)
  finally show ?thesis by simp
qed

subsection \<open>The centre of the map\<close>

text \<open>
  C6. When at least one row of the sheet has valid coordinates, the map is centred on
  the arithmetic mean of the latitudes and the arithmetic mean of the longitudes of all
  valid rows.
\<close>

theorem map_center_is_mean:
  assumes "prepare_stage env df = Inr gdf"
    and "get_loc (columns df) ''latitude'' = Inr ila"
    and "get_loc (columns df) ''longitude'' = Inr ilo"
    and "valid = filter (\<lambda>r. to_numeric env (cell_at r ila) \<noteq> None \<and>
                            to_numeric env (cell_at r ilo) \<noteq> None) (body df)"
    and "valid \<noteq> []"
  shows "map_location (draw_map env gdf sp) =
    (sum_list (map (\<lambda>r. the (to_numeric env (cell_at r ila))) valid) / real (length valid),
     sum_list (map (\<lambda>r. the (to_numeric env (cell_at r ilo))) valid) / real (length valid))"
proof -
  from mset_prepared_rows[OF assms(1,2,3)] assms(4) obtain it where
    m: "mset (gdf_rows gdf) = image_mset (\<lambda>r. the (point_row (coerce_row env it ila ilo r))) (mset valid)"
    by blast
  have len: "length (gdf_rows gdf) = length valid"
    using arg_cong[OF m, of size] by simp
  then have ne: "\<not> gdf_empty gdf" using assms(5) by (auto simp: gdf_empty_def)
  have v: "to_numeric env (cell_at r ila) \<noteq> None \<and> to_numeric env (cell_at r ilo) \<noteq> None"
    if "r \<in># mset valid" for r using that assms(4) by simp
  have "mset (map latitude (gdf_rows gdf)) = image_mset latitude (mset (gdf_rows gdf))" by simp
  also have "\<dots> = image_mset (\<lambda>r. latitude (the (point_row (coerce_row env it ila ilo r)))) (mset valid)"
    by (simp add: m image_mset.compositionality comp_def)
  also have "\<dots> = image_mset (\<lambda>r. the (to_numeric env (cell_at r ila))) (mset valid)"
    by (rule image_mset_cong) (simp add: point_of_valid v)
  finally have "mset (map latitude (gdf_rows gdf)) = mset (map (\<lambda>r. the (to_numeric env (cell_at r ila))) valid)"
    by simp
  then have la: "sum_list (map latitude (gdf_rows gdf)) = sum_list (map (\<lambda>r. the (to_numeric env (cell_at r ila))) valid)"
    by (metis sum_mset_sum_list)
  have "mset (map longitude (gdf_rows gdf)) = image_mset longitude (mset (gdf_rows gdf))" by simp
  also have "\<dots> = image_mset (\<lambda>r. longitude (the (point_row (coerce_row env it ila ilo r)))) (mset valid)"
    by (simp add: m image_mset.compositionality comp_def)
  also have "\<dots> = image_mset (\<lambda>r. the (to_numeric env (cell_at r ilo))) (mset valid)"
    by (rule image_mset_cong) (simp add: point_of_valid v)
  finally have "mset (map longitude (gdf_rows gdf)) = mset (map (\<lambda>r. the (to_numeric env (cell_at r ilo))) valid)"
    by simp
  then have lo: "sum_list (map longitude (gdf_rows gdf)) = sum_list (map (\<lambda>r. the (to_numeric env (cell_at r ilo))) valid)"
    by (metis sum_mset_sum_list)
  show ?thesis
    using ne by (simp add: draw_map_def map_center_def mean_def la lo len)
qed

theorem map_center_is_mean_witness:
  "prepare_stage (example_libs sheet_mixed (Inr no_stops) None) frame_mixed = Inr gdf_mixed \<and>
   map_location (draw_map (example_libs sheet_mixed (Inr no_stops) None) gdf_mixed empty_stop_points)
     = (20, 20)"
proof -
  let ?env = "example_libs sheet_mixed (Inr no_stops) None"
  let ?valid = "[[Some ''2000'', Some ''10'', Some ''20''],
           [Some ''abc'', Some ''30'', Some ''10''],
           [Some ''1000'', Some ''20'', Some ''30'']]"
  have c: "columns frame_mixed = sheet_header" by (simp add: frame_mixed_def)
  have v: "?valid = filter (\<lambda>r. to_numeric ?env (cell_at r 1) \<noteq> None \<and>
                            to_numeric ?env (cell_at r 2) \<noteq> None) (body frame_mixed)"
    by (simp add: frame_mixed_def example_libs_def example_to_numeric_def cell_at_def)
  have "map_location (draw_map ?env gdf_mixed empty_stop_points) =
    (sum_list (map (\<lambda>r. the (to_numeric ?env (cell_at r 1))) ?valid) / real (length ?valid),
     sum_list (map (\<lambda>r. the (to_numeric ?env (cell_at r 2))) ?valid) / real (length ?valid))"
  proof (rule map_center_is_mean[of ?env frame_mixed gdf_mixed 1 2 ?valid])
    show "prepare_stage ?env frame_mixed = Inr gdf_mixed" by simp
    show "get_loc (columns frame_mixed) ''latitude'' = Inr 1" by (simp add: c)
    show "get_loc (columns frame_mixed) ''longitude'' = Inr 2" by (simp add: c)
    show "?valid = filter (\<lambda>r. to_numeric ?env (cell_at r 1) \<noteq> None \<and>
                            to_numeric ?env (cell_at r 2) \<noteq> None) (body frame_mixed)" by (rule v)
    show "?valid \<noteq> []" by simp
  qed
  moreover have "to_numeric ?env = example_to_numeric" by (simp add: example_libs_def)
  ultimately have "map_location (draw_map ?env gdf_mixed empty_stop_points) = (20, 20)"
    by (simp add: example_to_numeric_def cell_at_def)
  then show ?thesis by simp
qed

subsection \<open>Time order\<close>

text \<open>
  C7. The prepared table is ordered by its parsed timestamp, non-decreasing, rows without
  a timestamp last: the table is sorted before the rows with invalid coordinates are
  dropped, and it is still sorted afterwards.
\<close>

theorem prepared_time_ordered:
  assumes "prepare_stage env df = Inr gdf"
  shows "\<exists>rows. sorted_wrt (\<lambda>a b. time_le (index_Timestamp a) (index_Timestamp b)) rows
           \<and> gdf_rows gdf = dropna_points rows
           \<and> sorted_wrt (\<lambda>a b. time_le (Timestamp a) (Timestamp b)) (gdf_rows gdf)"
proof -
  from assms obtain it ila ilo where
    g: "gdf = \<lparr>gdf_columns = prepared_columns (columns df),
            gdf_rows = dropna_points (sort_index (map (coerce_row env it ila ilo) (body df)))\<rparr>"
    by (rule prepare_stage_InrE)
  let ?rows = "sort_index (map (coerce_row env it ila ilo) (body df))"
  have s: "sorted_wrt (\<lambda>a b. time_le (index_Timestamp a) (index_Timestamp b)) ?rows"
    by (rule sorted_sort_index)
  have "gdf_rows gdf = dropna_points ?rows" using g by simp
  with s sorted_dropna_points[OF s] show ?thesis by metis
qed

theorem prepared_time_ordered_witness:
  "prepare_stage (example_libs sheet_mixed (Inr no_stops) None) frame_mixed = Inr gdf_mixed \<and>
   sorted_wrt (\<lambda>a b. time_le (Timestamp a) (Timestamp b)) (gdf_rows gdf_mixed) \<and>
   map Timestamp (gdf_rows gdf_mixed) = [Some 1000000000, Some 2000000000, None]"
  using prepared_time_ordered[of "example_libs sheet_mixed (Inr no_stops) None" frame_mixed gdf_mixed]
  by (simp add: gdf_mixed_def)

subsection \<open>The trajectory identifier\<close>

text \<open>
  C8. For a non-empty prepared table the identifier handed to movingpandas is
  \<open>EquipmentId\<close> if the table has a column of that name (which it has exactly when
  the sheet has), and \<open>Vehicle1_ID\<close> otherwise, whether or not such a column exists.
\<close>

theorem trajectory_id_first_match:
  assumes "prepare_stage env df = Inr gdf" and "\<not> gdf_empty gdf"
  shows "trajectory_id_col gdf =
           (if ''EquipmentId'' \<in> set (gdf_columns gdf) then ''EquipmentId'' else ''Vehicle1_ID'') \<and>
         (''EquipmentId'' \<in> set (gdf_columns gdf) \<longleftrightarrow> ''EquipmentId'' \<in> set (columns df)) \<and>
         detect_stage env gdf =
           (case mpd_Trajectory env gdf (trajectory_id_col gdf) of
              Inl e \<Rightarrow> Inl e
            | Inr tr \<Rightarrow>
                (case get_stop_points env tr min_duration_td max_diameter_meters of
                   Inl e \<Rightarrow> Inl e
                 | Inr d \<Rightarrow> Inr (add_duration_minutes d)))"
proof -
  from assms(1) have "gdf_columns gdf = prepared_columns (columns df)"
    by (elim prepare_stage_InrE) simp
  then have "''EquipmentId'' \<in> set (gdf_columns gdf) \<longleftrightarrow> ''EquipmentId'' \<in> set (columns df)"
    by (auto simp: prepared_columns_def Let_def)
  then show ?thesis
    using assms(2) by (simp add: trajectory_id_col_def detect_stage_def)
qed

theorem trajectory_id_first_match_witness:
  "prepare_stage (example_libs sheet_mixed (Inr one_stop) None) frame_mixed = Inr gdf_mixed \<and>
   ''Vehicle1_ID'' \<notin> set (gdf_columns gdf_mixed) \<and>
   trajectory_id_col gdf_mixed = ''Vehicle1_ID'' \<and>
   detect_stage (example_libs sheet_mixed (Inr one_stop) None) gdf_mixed =
     Inr (add_duration_minutes one_stop)"
proof -
  let ?env = "example_libs sheet_mixed (Inr one_stop) None"
  have ne: "\<not> gdf_empty gdf_mixed" by (simp add: gdf_empty_def gdf_mixed_def)
  have p: "prepare_stage ?env frame_mixed = Inr gdf_mixed" by simp
  have g: "gdf_columns gdf_mixed = [''eventGeneratedTime'', ''latitude'', ''longitude'', ''geometry'']"
    by (simp add: gdf_mixed_def)
  have r: "length (gdf_rows gdf_mixed) = 3" by (simp add: gdf_mixed_def)
  show ?thesis
    using trajectory_id_first_match[OF p ne] p
    by (simp add: g r example_libs_def)
qed

subsection \<open>Markers\<close>

text \<open>
  C9. The drawn map has exactly one marker per row of the stoppage table, in order; the
  marker of a row is at \<open>(y, x)\<close> of the row's point, and its popup contains the start
  time and the end time formatted with \<^verbatim>\<open>%Y-%m-%d %H:%M:%S\<close> and the duration in
  minutes rounded to two places (a multiple of \<open>1/100\<close> within \<open>1/200\<close> of it).
\<close>

theorem one_marker_per_stoppage:
  "length (markers (draw_map env gdf sp)) = length (sp_rows sp) \<and>
   (\<forall>i < length (sp_rows sp).
      marker_location (markers (draw_map env gdf sp) ! i) =
        (snd (geometry_xy (sp_rows sp ! i)), fst (geometry_xy (sp_rows sp ! i))) \<and>
      (\<exists>a b c d. popup (markers (draw_map env gdf sp) ! i) =
         a @ strftime env (start_time (sp_rows sp ! i)) ''%Y-%m-%d %H:%M:%S'' @
         b @ strftime env (end_time (sp_rows sp ! i)) ''%Y-%m-%d %H:%M:%S'' @
         c @ str_float env (py_round (duration_minutes (sp_rows sp ! i)) 2) @ d) \<and>
      (\<exists>k::int. py_round (duration_minutes (sp_rows sp ! i)) 2 = of_int k / 100 \<and>
         \<bar>py_round (duration_minutes (sp_rows sp ! i)) 2 - duration_minutes (sp_rows sp ! i)\<bar>
           \<le> 1 / 200))"
proof -
  have m: "markers (draw_map env gdf sp) = map (stoppage_marker env) (sp_rows sp)"
    by (simp add: draw_map_def sp_empty_def)
  have p: "\<exists>a b c d. popup (stoppage_marker env row) =
         a @ strftime env (start_time row) ''%Y-%m-%d %H:%M:%S'' @
         b @ strftime env (end_time row) ''%Y-%m-%d %H:%M:%S'' @
         c @ str_float env (py_round (duration_minutes row) 2) @ d" for row
  proof -
    have "popup (stoppage_marker env row) =
        (indent @ ''<b>Stoppage Details</b><br>'' @ indent @ ''-----------------------------<br>'' @
           indent @ ''<b>Reach Time:</b> '') @
        strftime env (start_time row) ''%Y-%m-%d %H:%M:%S'' @
        (''<br>'' @ indent @ ''<b>End Time:</b> '') @
        strftime env (end_time row) ''%Y-%m-%d %H:%M:%S'' @
        (''<br>'' @ indent @ ''<b>Duration:</b> '') @
        str_float env (py_round (duration_minutes row) 2) @ ('' minutes'' @ indent)"
      by (simp add: stoppage_marker_def Let_def popup_html_def time_format_def)
    then show ?thesis by blast
  qed
  have l: "marker_location (stoppage_marker env row) =
      (snd (geometry_xy row), fst (geometry_xy row))" for row
    by (simp add: stoppage_marker_def Let_def)
  show ?thesis
    using p l py_round_two_places by (simp add: m)
qed

theorem one_marker_per_stoppage_witness:
  "length (markers (draw_map (example_libs sheet_mixed (Inr one_stop) None) gdf_mixed
      (add_duration_minutes one_stop))) = 1 \<and>
   marker_location (markers (draw_map (example_libs sheet_mixed (Inr one_stop) None) gdf_mixed
      (add_duration_minutes one_stop)) ! 0) = (10, 20)"
  using one_marker_per_stoppage[of "example_libs sheet_mixed (Inr one_stop) None" gdf_mixed
      "add_duration_minutes one_stop"]
  by (simp add: add_duration_minutes_def one_stop_def with_duration_minutes_def)

subsection \<open>Minutes from seconds\<close>



end
